theory Spec2Isabelle
  imports Main
begin

section \<open>Flow graph model (package flow)\<close>

text \<open>
  The named string types of \<^verbatim>\<open>flow/flow.go\<close>. Go strings are byte
  sequences, which is what \<^typ>\<open>string\<close> is here.
\<close>

type_synonym ModuleID = string
type_synonym ModuleType = string
type_synonym ModuleTarget = string
type_synonym ModuleBranchCondition = string
type_synonym ModuleBranchConditionType = string
type_synonym ModuleParameterNamespace = string
type_synonym SystemKey = string

text \<open>
  A value of Go type \<^verbatim>\<open>interface{}\<close> as \<^verbatim>\<open>encoding/json\<close>
  produces it: nil, a bool, a number, a string, an array or an object. Numbers are
  kept as integers (the blocks of this development only carry integral numbers).
\<close>

datatype jvalue =
    VNull
  | VBool bool
  | VNum int
  | VString string
  | VArray "jvalue list"
  | VObject "(string \<times> jvalue) list"

text \<open>Known types of block.\<close>

abbreviation ModuleStoreUserInput :: ModuleType where "ModuleStoreUserInput \<equiv> ''StoreUserInput''"
abbreviation ModuleCheckAttribute :: ModuleType where "ModuleCheckAttribute \<equiv> ''CheckAttribute''"
abbreviation ModuleTransfer :: ModuleType where "ModuleTransfer \<equiv> ''Transfer''"
abbreviation ModulePlayPrompt :: ModuleType where "ModulePlayPrompt \<equiv> ''PlayPrompt''"
abbreviation ModuleDisconnect :: ModuleType where "ModuleDisconnect \<equiv> ''Disconnect''"
abbreviation ModuleSetQueue :: ModuleType where "ModuleSetQueue \<equiv> ''SetQueue''"
abbreviation ModuleGetUserInput :: ModuleType where "ModuleGetUserInput \<equiv> ''GetUserInput''"
abbreviation ModuleSetAttributes :: ModuleType where "ModuleSetAttributes \<equiv> ''SetAttributes''"
abbreviation ModuleInvokeExternalResource :: ModuleType where
  "ModuleInvokeExternalResource \<equiv> ''InvokeExternalResource''"
abbreviation ModuleCheckHoursOfOperation :: ModuleType where
  "ModuleCheckHoursOfOperation \<equiv> ''CheckHoursOfOperation''"
abbreviation ModuleSetVoice :: ModuleType where "ModuleSetVoice \<equiv> ''SetVoice''"

text \<open>Values used in the module's target field.\<close>

abbreviation TargetFlow :: ModuleTarget where "TargetFlow \<equiv> ''Flow''"
abbreviation TargetLambda :: ModuleTarget where "TargetLambda \<equiv> ''Lambda''"
abbreviation TargetQueue :: ModuleTarget where "TargetQueue \<equiv> ''Queue''"
abbreviation TargetDigits :: ModuleTarget where "TargetDigits \<equiv> ''Digits''"
abbreviation TargetPhoneNumber :: ModuleTarget where "TargetPhoneNumber \<equiv> ''PhoneNumber''"

text \<open>The three places a dynamic value can be looked up.\<close>

abbreviation NamespaceExternal :: ModuleParameterNamespace where "NamespaceExternal \<equiv> ''External''"
abbreviation NamespaceSystem :: ModuleParameterNamespace where "NamespaceSystem \<equiv> ''System''"
abbreviation NamespaceUserDefined :: ModuleParameterNamespace where
  "NamespaceUserDefined \<equiv> ''User Defined''"

text \<open>Known named reasons for choosing an output of a block.\<close>

abbreviation BranchSuccess :: ModuleBranchCondition where "BranchSuccess \<equiv> ''Success''"
abbreviation BranchError :: ModuleBranchCondition where "BranchError \<equiv> ''Error''"
abbreviation BranchNoMatch :: ModuleBranchCondition where "BranchNoMatch \<equiv> ''NoMatch''"
abbreviation BranchEvaluate :: ModuleBranchCondition where "BranchEvaluate \<equiv> ''Evaluate''"
abbreviation BranchTimeout :: ModuleBranchCondition where "BranchTimeout \<equiv> ''Timeout''"
abbreviation BranchTrue :: ModuleBranchCondition where "BranchTrue \<equiv> ''True''"
abbreviation BranchFalse :: ModuleBranchCondition where "BranchFalse \<equiv> ''False''"
abbreviation BranchAtCapacity :: ModuleBranchCondition where "BranchAtCapacity \<equiv> ''AtCapacity''"

text \<open>Values that can be dynamically looked up from the Connect system (those used below).\<close>

abbreviation SystemLastUserInput :: SystemKey where "SystemLastUserInput \<equiv> ''Stored customer input''"
abbreviation SystemQueueName :: SystemKey where "SystemQueueName \<equiv> ''Queue.Name''"
abbreviation SystemQueueARN :: SystemKey where "SystemQueueARN \<equiv> ''Queue.ARN''"

text \<open>
  \<^verbatim>\<open>Metadata\<close> of a flow. Its fields carry a prefix, since \<^verbatim>\<open>Name\<close> and
  \<^verbatim>\<open>Type\<close> are also fields of a parameter and of a module.
\<close>

record Metadata =
  Metadata_Name :: string
  Metadata_Description :: string
  Metadata_Type :: string

record ModuleBranch =
  Condition :: ModuleBranchCondition
  ConditionType :: ModuleBranchConditionType
  ConditionValue :: jvalue
  Transition :: ModuleID

record ModuleParameter =
  Name :: string
  Key :: string
  Value :: jvalue
  Namespace :: "ModuleParameterNamespace option"
  ResourceName :: string

type_synonym ModuleBranchList = "ModuleBranch list"
type_synonym ModuleParameterList = "ModuleParameter list"

text \<open>A block. \<^verbatim>\<open>Metadata\<close> is raw JSON (\<^verbatim>\<open>json.RawMessage\<close>), kept as its bytes.\<close>

record Module =
  ID :: ModuleID
  Type :: ModuleType
  Branches :: ModuleBranchList
  Parameters :: ModuleParameterList
  Metadata :: string
  Target :: ModuleTarget

record Flow =
  Modules :: "Module list"
  Start :: ModuleID
  Flow_Metadata :: Metadata

record KeyValue =
  K :: string
  V :: string

text \<open>
  \<^verbatim>\<open>ModuleBranchList.GetLink\<close>: the loop over the branches returns at the first
  branch whose condition is the name asked for; \<^verbatim>\<open>nil\<close> is \<^const>\<open>None\<close>.
\<close>

fun GetLink :: "ModuleBranchList \<Rightarrow> ModuleBranchCondition \<Rightarrow> ModuleID option" where
  "GetLink [] named = None"
| "GetLink (p # mbl) named =
     (if Condition p = named then Some (Transition p) else GetLink mbl named)"

text \<open>The zero value \<^verbatim>\<open>ModuleParameter{}\<close>.\<close>

definition zeroModuleParameter :: ModuleParameter where
  "zeroModuleParameter =
     \<lparr>Name = [], Key = [], Value = VNull, Namespace = None, ResourceName = []\<rparr>"

text \<open>\<^verbatim>\<open>ModuleParameterList.Get\<close>: the first parameter with the name, and whether there is one.\<close>

fun Get :: "ModuleParameterList \<Rightarrow> string \<Rightarrow> ModuleParameter \<times> bool" where
  "Get [] named = (zeroModuleParameter, False)"
| "Get (p # mpl) named = (if Name p = named then (p, True) else Get mpl named)"

section \<open>Events (package event)\<close>

text \<open>
  Modelled from the spec: the declarations of package \<^verbatim>\<open>event\<close> are not among the
  sources. The spec gives typed, immutable event records (queue transfer, flow
  transfer, number transfer, and others), each with the data needed to assert on it;
  the field names are those the runners and matchers of the sources use. Every event
  kind other than the three transfers is \<open>OtherEvent\<close> with the name of its kind.
\<close>

datatype EventType =
    TransferQueueType
  | TransferFlowType
  | TransferNumberType
  | OtherType string

datatype Event =
    FlowTransferEvent (FlowARN: string) (FlowName: string)
  | QueueTransferEvent (QueueARN: string) (QueueName: string)
  | NumberTransferEvent (Tel: string)
  | OtherEvent string

text \<open>\<^verbatim>\<open>Event.Type()\<close>: each event record answers with its own kind.\<close>

fun Event_Type :: "Event \<Rightarrow> EventType" where
  "Event_Type (FlowTransferEvent arn name) = TransferFlowType"
| "Event_Type (QueueTransferEvent arn name) = TransferQueueType"
| "Event_Type (NumberTransferEvent tel) = TransferNumberType"
| "Event_Type (OtherEvent kind) = OtherType kind"

section \<open>Errors\<close>

text \<open>
  A runner returns a Go \<^verbatim>\<open>error\<close> with a message (\<open>Err\<close>) or the
  \<^verbatim>\<open>*strconv.NumError\<close> of a failed number parse (\<open>NumError\<close> with the function,
  the input and the reason), or the Go runtime panics, on a failed type assertion
  \<^verbatim>\<open>x.(T)\<close> or a call of a \<^verbatim>\<open>nil\<close> function (\<open>Panic\<close>).
\<close>

datatype error =
    Err string
  | NumError string string string
  | Panic string

section \<open>The call connector (module tests' testCallState)\<close>

text \<open>
  The runners act on a \<^verbatim>\<open>CallConnector\<close>. The connector of the sources is
  \<^verbatim>\<open>testCallState\<close>, against which the repository's own tests run every runner;
  its fields and methods are modelled as they are written. The nested struct
  \<^verbatim>\<open>rcv\<close> is flattened (\<open>rcv_count\<close> for \<^verbatim>\<open>rcv.count\<close>), a duration
  is a number of nanoseconds, and the fields \<^verbatim>\<open>i\<close> and \<^verbatim>\<open>o\<close> are
  \<open>st_i\<close> and \<open>st_o\<close> (\<open>o\<close> is HOL's composition). The lambda and
  hours-of-operation fields, which none of the runners below reads or writes, are left
  out. The maps are those of an initialised state (the tests run every runner on
  \<^verbatim>\<open>init()\<close>), so a write to a map never meets a \<^verbatim>\<open>nil\<close> map.
\<close>

record testCallState =
  st_i :: string
  st_o :: string
  oSSML :: bool
  rcv_count :: int
  rcv_timeout :: int
  rcv_encrypt :: bool
  rcv_terminator :: char
  rcv_cert :: string
  rcv_keyID :: string
  encrypt :: "(string \<Rightarrow> string \<Rightarrow> string \<Rightarrow> string) option"
  external :: "string \<rightharpoonup> string"
  contactData :: "string \<rightharpoonup> string"
  system :: "SystemKey \<rightharpoonup> string"
  flowStart :: "string \<rightharpoonup> ModuleID"
  events :: "Event list"

definition Send :: "testCallState \<Rightarrow> string \<Rightarrow> bool \<Rightarrow> testCallState" where
  "Send st s ssml = st\<lparr>st_o := s, oSSML := ssml\<rparr>"

definition Receive :: "testCallState \<Rightarrow> int \<Rightarrow> int \<Rightarrow> char \<Rightarrow> (string \<times> bool) \<times> testCallState" where
  "Receive st count timeout terminator =
     (let st' = st\<lparr>rcv_count := count, rcv_timeout := timeout, rcv_terminator := terminator\<rparr>
      in if st_i st = [] then (([], False), st')
         else ((st_i st, st_i st \<noteq> ''Timeout''), st'))"

definition GetExternal :: "testCallState \<Rightarrow> string \<Rightarrow> string option" where
  "GetExternal st key = external st key"

definition GetContactData :: "testCallState \<Rightarrow> string \<Rightarrow> string option" where
  "GetContactData st key = contactData st key"

definition SetContactData :: "testCallState \<Rightarrow> string \<Rightarrow> string \<Rightarrow> testCallState" where
  "SetContactData st key v = st\<lparr>contactData := (contactData st)(key \<mapsto> v)\<rparr>"

definition GetSystem :: "testCallState \<Rightarrow> SystemKey \<Rightarrow> string option" where
  "GetSystem st key = system st key"

definition SetSystem :: "testCallState \<Rightarrow> SystemKey \<Rightarrow> string \<Rightarrow> testCallState" where
  "SetSystem st key v = st\<lparr>system := (system st)(key \<mapsto> v)\<rparr>"

text \<open>
  \<^verbatim>\<open>GetFlowStart\<close> reads the map with a plain index, so a missing name and a
  stored empty identifier both give \<^verbatim>\<open>nil\<close>.
\<close>

definition GetFlowStart :: "testCallState \<Rightarrow> string \<Rightarrow> ModuleID option" where
  "GetFlowStart st flowName =
     (let r = (case flowStart st flowName of None \<Rightarrow> [] | Some v \<Rightarrow> v)
      in if r = [] then None else Some r)"

definition Emit :: "testCallState \<Rightarrow> Event \<Rightarrow> testCallState" where
  "Emit st event = st\<lparr>events := events st @ [event]\<rparr>"

text \<open>
  \<^verbatim>\<open>Encrypt\<close> calls the hook stored in the state. A state built without a hook
  holds the \<^verbatim>\<open>nil\<close> function (\<^const>\<open>None\<close>), and calling it panics.
\<close>

definition Encrypt :: "testCallState \<Rightarrow> string \<Rightarrow> string \<Rightarrow> string \<Rightarrow> error + string" where
  "Encrypt st inp keyID cert =
     (case encrypt st of
        None \<Rightarrow> Inl (Panic ''invalid memory address or nil pointer dereference'')
      | Some f \<Rightarrow> Inr (f inp keyID cert))"

text \<open>
  The zero value \<^verbatim>\<open>testCallState{}\<close>, and \<^verbatim>\<open>init\<close>, which replaces the
  \<^verbatim>\<open>nil\<close> maps by empty ones (both are the empty map here) and empties the
  event log.
\<close>

definition zeroCallState :: testCallState where
  "zeroCallState =
     \<lparr>st_i = [], st_o = [], oSSML = False, rcv_count = 0, rcv_timeout = 0,
      rcv_encrypt = False, rcv_terminator = CHR 0x00, rcv_cert = [], rcv_keyID = [],
      encrypt = None, external = Map.empty, contactData = Map.empty, system = Map.empty,
      flowStart = Map.empty, events = []\<rparr>"

definition init :: "testCallState \<Rightarrow> testCallState" where
  "init st = st\<lparr>events := []\<rparr>"

section \<open>Runners (package module)\<close>

text \<open>
  A runner's \<^verbatim>\<open>Run\<close> returns \<^verbatim>\<open>(next, err)\<close> and may have written to the
  connector: the model returns the error or the optional successor, and the connector
  state after the call.
\<close>

type_synonym run_result = "(error + ModuleID option) \<times> testCallState"

definition disconnect_Run :: "Module \<Rightarrow> testCallState \<Rightarrow> run_result" where
  "disconnect_Run m call =
     (if Type m \<noteq> ModuleDisconnect
      then (Inl (Err (''module of type '' @ Type m @ '' being run as disconnect'')), call)
      else (Inr None, call))"

definition setQueue_Run :: "Module \<Rightarrow> testCallState \<Rightarrow> run_result" where
  "setQueue_Run m call =
     (if Type m \<noteq> ModuleSetQueue
      then (Inl (Err (''module of type '' @ Type m @ '' being run as setQueue'')), call)
      else (case Get (Parameters m) ''Queue'' of (p, ok) \<Rightarrow>
        (if \<not> ok then (Inl (Err ''missing Queue parameter''), call)
         else (case Value p of
           VString arn \<Rightarrow>
             (Inr (GetLink (Branches m) BranchSuccess),
              SetSystem (SetSystem call SystemQueueARN arn) SystemQueueName (ResourceName p))
         | _ \<Rightarrow> (Inl (Panic ''interface conversion: interface {} is not string''), call)))))"

text \<open>
  \<^verbatim>\<open>transfer.Run\<close>, the runner on a \<^verbatim>\<open>CallConnector\<close>. The \<^verbatim>\<open>switch\<close>
  on the target is the chain of comparisons in its order, with one definition for
  the body of each case. A type assertion with one
  result (\<^verbatim>\<open>cfid.Value.(string)\<close>) panics on another type; the assertions with
  two results (\<^verbatim>\<open>_, isBool := blind.Value.(bool)\<close>) only test.
\<close>

definition transfer_Flow :: "Module \<Rightarrow> testCallState \<Rightarrow> run_result" where
  "transfer_Flow m call =
     (case Get (Parameters m) ''ContactFlowId'' of (cfid, ok) \<Rightarrow>
        (if \<not> ok then (Inl (Err ''missing ContactFlowId parameter''), call)
         else (case GetFlowStart call (ResourceName cfid) of
           None \<Rightarrow> (Inr (GetLink (Branches m) BranchError), call)
         | Some next \<Rightarrow>
             (case Value cfid of
                VString arn \<Rightarrow>
                  (Inr (Some next), Emit call (FlowTransferEvent arn (ResourceName cfid)))
              | _ \<Rightarrow> (Inl (Panic ''interface conversion: interface {} is not string''), call)))))"

definition transfer_Queue :: "Module \<Rightarrow> testCallState \<Rightarrow> run_result" where
  "transfer_Queue m call =
     (case GetSystem call SystemQueueName of
        None \<Rightarrow> (Inr (GetLink (Branches m) BranchError), call)
      | Some queue \<Rightarrow>
          (case GetSystem call SystemQueueARN of
             None \<Rightarrow> (Inr (GetLink (Branches m) BranchError), call)
           | Some arn \<Rightarrow> (Inr None, Emit call (QueueTransferEvent arn queue))))"

definition transfer_PhoneNumber :: "Module \<Rightarrow> testCallState \<Rightarrow> run_result" where
  "transfer_PhoneNumber m call =
     (case Get (Parameters m) ''BlindTransfer'' of (blind, ok) \<Rightarrow>
        (case (ok, Value blind) of
           (True, VBool b) \<Rightarrow>
             (case Get (Parameters m) ''PhoneNumber'' of (num, ok') \<Rightarrow>
                (case (ok', Value num) of
                   (True, VString tel) \<Rightarrow>
                     (let call' = Emit call (NumberTransferEvent tel)
                      in if b then (Inr None, call')
                         else (Inr (GetLink (Branches m) BranchSuccess), call'))
                 | _ \<Rightarrow> (Inl (Err ''missing PhoneNumber parameter''), call)))
         | _ \<Rightarrow> (Inl (Err ''missing BlindTransfer parameter''), call)))"

definition transfer_Run :: "Module \<Rightarrow> testCallState \<Rightarrow> run_result" where
  "transfer_Run m call =
     (if Type m \<noteq> ModuleTransfer
      then (Inl (Err (''module of type '' @ Type m @ '' being run as transfer'')), call)
      else if Target m = TargetFlow then transfer_Flow m call
      else if Target m = TargetQueue then transfer_Queue m call
      else if Target m = TargetPhoneNumber then transfer_PhoneNumber m call
      else (Inl (Err (''unhandled transfer target: '' @ Target m)), call))"

text \<open>
  The runners of the sources written against \<^verbatim>\<open>*call.Context\<close>
  (\<^verbatim>\<open>setAttributes.Run\<close> and the first \<^verbatim>\<open>transfer.Run\<close>). Package
  \<^verbatim>\<open>call\<close> is not among the sources: the context is a record of the two maps the
  runners index, any further field being the record's extension, and the methods they
  call on it (\<^verbatim>\<open>UnmarshalParameters\<close>, \<^verbatim>\<open>Send\<close>,
  \<^verbatim>\<open>GetFlowStart\<close>) are parameters of the model.
\<close>

record Context =
  ContactData :: "string \<rightharpoonup> string"
  System :: "SystemKey \<rightharpoonup> string"

definition setAttributes_Run ::
  "('z Context_scheme \<Rightarrow> ModuleParameterList \<Rightarrow> error + KeyValue list) \<Rightarrow>
   Module \<Rightarrow> 'z Context_scheme \<Rightarrow> (error + ModuleID option) \<times> 'z Context_scheme" where
  "setAttributes_Run UnmarshalParameters m ctx =
     (if Type m \<noteq> ModuleSetAttributes
      then (Inl (Err (''module of type '' @ Type m @ '' being run as setAttributes'')), ctx)
      else (case UnmarshalParameters ctx (Parameters m) of
        Inl err \<Rightarrow> (Inl err, ctx)
      | Inr Attribute \<Rightarrow>
          (Inr (GetLink (Branches m) BranchSuccess),
           foldl (\<lambda>c a. c\<lparr>ContactData := (ContactData c)(K a \<mapsto> V a)\<rparr>) ctx Attribute)))"

text \<open>
  The first \<^verbatim>\<open>transfer.Run\<close> of the sources. It reads the queue name with a plain
  map index (the empty string when the key is missing) and takes the parameter that
  \<^verbatim>\<open>Get\<close> returns without testing that it was found.
\<close>

definition transfer_Run_Context ::
  "('z Context_scheme \<Rightarrow> string \<Rightarrow> 'z Context_scheme) \<Rightarrow>
   ('z Context_scheme \<Rightarrow> string \<Rightarrow> ModuleID option) \<Rightarrow>
   Module \<Rightarrow> 'z Context_scheme \<Rightarrow> (error + ModuleID option) \<times> 'z Context_scheme" where
  "transfer_Run_Context Send' GetFlowStart' m ctx =
     (if Type m \<noteq> ModuleTransfer
      then (Inl (Err (''module of type '' @ Type m @ '' being run as transfer'')), ctx)
      else if Target m = TargetFlow then
        (let fName = ResourceName (fst (Get (Parameters m) ''ContactFlowId''))
         in (Inr (GetFlowStart' ctx fName), ctx))
      else if Target m = TargetQueue then
        (Inr None,
         Send' ctx (''<transfer to queue '' @
           (case System ctx SystemQueueName of None \<Rightarrow> [] | Some v \<Rightarrow> v) @ ''>''))
      else (Inl (Err (''unhandled transfer target: '' @ Target m)), ctx))"

section \<open>Event matchers (package flowtest)\<close>

text \<open>
  The matcher structs hold the asserted name (\<^verbatim>\<open>queueName\<close>,
  \<^verbatim>\<open>flowName\<close>) as their only field.
\<close>

datatype queueTransferMatcher = QueueTransferMatcher string

datatype flowTransferMatcher = FlowTransferMatcher string

text \<open>
  \<^verbatim>\<open>match\<close> returns \<^verbatim>\<open>(match, pass, got)\<close>. After the test of the event's
  kind, the type assertion \<^verbatim>\<open>evt.(event.QueueTransferEvent)\<close> would panic on an
  event of another Go type.
\<close>

fun queueTransferMatcher_match ::
  "queueTransferMatcher \<Rightarrow> Event \<Rightarrow> error + (bool \<times> bool \<times> string)" where
  "queueTransferMatcher_match (QueueTransferMatcher queueName) evt =
     (if Event_Type evt \<noteq> TransferQueueType then Inr (False, False, [])
      else (case evt of
        QueueTransferEvent arn name \<Rightarrow> Inr (True, name = queueName, name)
      | _ \<Rightarrow> Inl (Panic ''interface conversion: event.Event is not event.QueueTransferEvent'')))"

fun flowTransferMatcher_match ::
  "flowTransferMatcher \<Rightarrow> Event \<Rightarrow> error + (bool \<times> bool \<times> string)" where
  "flowTransferMatcher_match (FlowTransferMatcher flowName) evt =
     (if Event_Type evt \<noteq> TransferFlowType then Inr (False, False, [])
      else (case evt of
        FlowTransferEvent arn name \<Rightarrow> Inr (True, name = flowName, name)
      | _ \<Rightarrow> Inl (Panic ''interface conversion: event.Event is not event.FlowTransferEvent'')))"

section \<open>The simulator (package simulator)\<close>

text \<open>
  The simulator's maps of flows, of modules and of starting flows by telephone number.
  Its lambdas and its two hooks are not read or written by the methods modelled here
  and are left out.
\<close>

record Simulator =
  flows :: "string \<rightharpoonup> Flow"
  modules :: "ModuleID \<rightharpoonup> Module"
  telFlow :: "string \<rightharpoonup> Flow"

definition New :: Simulator where
  "New = \<lparr>flows = Map.empty, modules = Map.empty, telFlow = Map.empty\<rparr>"

text \<open>\<^verbatim>\<open>LoadFlow\<close>; \<^verbatim>\<open>flow.Dedeprecate\<close> is not among the sources and is a parameter.\<close>

definition LoadFlow :: "(Flow \<Rightarrow> Flow) \<Rightarrow> Simulator \<Rightarrow> Flow \<Rightarrow> Simulator" where
  "LoadFlow Dedeprecate cs f0 =
     (let f = Dedeprecate f0
      in cs\<lparr>flows := (flows cs)(Metadata_Name (Flow_Metadata f) \<mapsto> f),
            modules := foldl (\<lambda>ms m. ms(ID m \<mapsto> m)) (modules cs) (Modules f)\<rparr>)"

text \<open>\<^verbatim>\<open>SetStartingFlowFor\<close> returns its error, if any, and the simulator after the call.\<close>

definition SetStartingFlowFor :: "Simulator \<Rightarrow> string \<Rightarrow> string \<Rightarrow> error option \<times> Simulator" where
  "SetStartingFlowFor cs tel flowName =
     (case flows cs flowName of
        None \<Rightarrow>
          (Some (Err ''starting flow not found. Load the flow with LoadFlow before calling this method''),
           cs)
      | Some f \<Rightarrow> (None, cs\<lparr>telFlow := (telFlow cs)(tel \<mapsto> f)\<rparr>))"

text \<open>
  The call configuration: \<^verbatim>\<open>StartCall\<close> reads its destination number only; its
  other fields are the record's extension.
\<close>

record CallConfig =
  DestNumber :: string

text \<open>
  \<^verbatim>\<open>StartCall\<close>. The constructor \<^verbatim>\<open>newCall\<close> is not among the sources and is
  a parameter: the call returned is \<^verbatim>\<open>newCall\<close> of the configuration, the
  simulator (as connector) and the identifier of the first block.
\<close>

definition StartCall ::
  "('z CallConfig_scheme \<Rightarrow> Simulator \<Rightarrow> ModuleID \<Rightarrow> 'call) \<Rightarrow>
   Simulator \<Rightarrow> 'z CallConfig_scheme \<Rightarrow> error + 'call" where
  "StartCall newCall cs config =
     (if DestNumber config = []
      then Inl (Err ''a destination number must be provided in order to start a flow'')
      else (case telFlow cs (DestNumber config) of
        None \<Rightarrow> Inl (Err ''no starting flow set. Call SetStartingFlowFor before starting a call'')
      | Some start \<Rightarrow> Inr (newCall config cs (Start start))))"

text \<open>\<^verbatim>\<open>simulatorConnector.GetFlowStart\<close>.\<close>

definition Simulator_GetFlowStart :: "Simulator \<Rightarrow> string \<Rightarrow> ModuleID option" where
  "Simulator_GetFlowStart cs flowName =
     (case flows cs flowName of None \<Rightarrow> None | Some f \<Rightarrow> Some (Start f))"

text \<open>
  A simulator is set up by a sequence of calls of \<^verbatim>\<open>LoadFlow\<close> and
  \<^verbatim>\<open>SetStartingFlowFor\<close> on a new simulator.
\<close>

datatype SimulatorCall =
    CallLoadFlow Flow
  | CallSetStartingFlowFor string string

fun simulator_step :: "(Flow \<Rightarrow> Flow) \<Rightarrow> Simulator \<Rightarrow> SimulatorCall \<Rightarrow> Simulator" where
  "simulator_step Dedeprecate cs (CallLoadFlow f) = LoadFlow Dedeprecate cs f"
| "simulator_step Dedeprecate cs (CallSetStartingFlowFor tel flowName) =
     snd (SetStartingFlowFor cs tel flowName)"

definition simulator_after :: "(Flow \<Rightarrow> Flow) \<Rightarrow> SimulatorCall list \<Rightarrow> Simulator" where
  "simulator_after Dedeprecate calls = foldl (simulator_step Dedeprecate) New calls"

section \<open>Inline template substitution\<close>

text \<open>
  Modelled from the spec: the parameter resolver is not among the sources. The spec
  gives embedded references of the form \<^verbatim>\<open>$.<Namespace>.<key>\<close> in a text. It does
  not say which characters a namespace and a key are made of: the two character
  classes are the parameters \<open>nsChar\<close> and \<open>keyChar\<close>, and a namespace and a key are
  the longest non-empty runs of them. \<open>reference_at\<close> reads one reference at the head
  of a text and returns its namespace, its key and the text after it.
\<close>

definition reference_at ::
  "(char \<Rightarrow> bool) \<Rightarrow> (char \<Rightarrow> bool) \<Rightarrow> string \<Rightarrow> (string \<times> string \<times> string) option" where
  "reference_at nsChar keyChar s =
     (case s of
        c1 # c2 # r1 \<Rightarrow>
          (if c1 = CHR ''$'' \<and> c2 = CHR ''.'' then
             (let ns = takeWhile nsChar r1 in
              case dropWhile nsChar r1 of
                c3 # r2 \<Rightarrow>
                  (let key = takeWhile keyChar r2 in
                   if c3 = CHR ''.'' \<and> ns \<noteq> [] \<and> key \<noteq> []
                   then Some (ns, key, dropWhile keyChar r2) else None)
              | [] \<Rightarrow> None)
           else None)
      | _ \<Rightarrow> None)"

text \<open>A text is cut into literal characters and references; \<open>raw\<close> is the text of a segment.\<close>

datatype segment = Literal char | Reference string string

fun raw :: "segment \<Rightarrow> string" where
  "raw (Literal c) = [c]"
| "raw (Reference ns key) = ''$.'' @ ns @ ''.'' @ key"

lemma reference_at_text:
  "reference_at nsChar keyChar s = Some (ns, key, rest) \<Longrightarrow> s = ''$.'' @ ns @ ''.'' @ key @ rest"
  unfolding reference_at_def
  apply (auto split: list.splits if_splits simp: Let_def)
  by (metis takeWhile_dropWhile_id)

lemma reference_at_shorter:
  "reference_at nsChar keyChar s = Some (ns, key, rest) \<Longrightarrow> length rest < length s"
  by (drule reference_at_text) simp

text \<open>
  Modelled from the spec: the scan of the resolver, which is not among the sources
  ("the resolver scans the text for all such references"): from left to right, a
  reference where one starts, a literal character otherwise.
\<close>

function scan :: "(char \<Rightarrow> bool) \<Rightarrow> (char \<Rightarrow> bool) \<Rightarrow> string \<Rightarrow> segment list" where
  "scan nsChar keyChar [] = []"
| "scan nsChar keyChar (c # cs) =
     (case reference_at nsChar keyChar (c # cs) of
        Some (ns, key, rest) \<Rightarrow> Reference ns key # scan nsChar keyChar rest
      | None \<Rightarrow> Literal c # scan nsChar keyChar cs)"
  by pat_completeness auto
termination
  by (relation "measure (\<lambda>(nsChar, keyChar, s). length s)") (auto dest: reference_at_shorter)

text \<open>
  Modelled from the spec: the replacement done by the resolver, which is not among
  the sources ("replaces each with the looked-up value from the matching namespace
  store, leaving the reference literally in place if the key is not found"). The
  value put in is not scanned again.
\<close>

fun render :: "(string \<Rightarrow> string \<Rightarrow> string option) \<Rightarrow> segment \<Rightarrow> string" where
  "render lookup (Literal c) = [c]"
| "render lookup (Reference ns key) =
     (case lookup ns key of None \<Rightarrow> raw (Reference ns key) | Some v \<Rightarrow> v)"

definition substitute ::
  "(char \<Rightarrow> bool) \<Rightarrow> (char \<Rightarrow> bool) \<Rightarrow> (string \<Rightarrow> string \<Rightarrow> string option) \<Rightarrow>
   string \<Rightarrow> string" where
  "substitute nsChar keyChar lookup s = concat (map (render lookup) (scan nsChar keyChar s))"

section \<open>Parameter resolution\<close>

text \<open>
  Modelled from the spec: the three-way lookup of the resolver, which is not among the
  sources: the External store, the reserved System store and the caller-attribute
  store (User Defined) of the call; any other namespace has no store, so a lookup in
  it misses.
\<close>

definition lookupNamespace ::
  "testCallState \<Rightarrow> ModuleParameterNamespace \<Rightarrow> string \<Rightarrow> string option" where
  "lookupNamespace call ns key =
     (if ns = NamespaceExternal then GetExternal call key
      else if ns = NamespaceSystem then GetSystem call key
      else if ns = NamespaceUserDefined then GetContactData call key
      else None)"

text \<open>
  Modelled from the spec: the resolution of one parameter by the resolver, which is
  not among the sources. Without a namespace the raw value is returned unchanged; with
  one, the raw value is the key of a lookup in the namespace's store, and a miss gives
  the absent value (\<open>VNull\<close>). The spec does not give the textual form of a raw value
  that is not a string: such a key is taken to miss.
\<close>

definition resolve :: "testCallState \<Rightarrow> ModuleParameter \<Rightarrow> jvalue" where
  "resolve call p =
     (case Namespace p of
        None \<Rightarrow> Value p
      | Some ns \<Rightarrow>
          (case Value p of
             VString key \<Rightarrow>
               (case lookupNamespace call ns key of None \<Rightarrow> VNull | Some v \<Rightarrow> VString v)
           | _ \<Rightarrow> VNull))"

datatype requirement = Required | Optional

text \<open>
  Modelled from the spec: the typed reading of a block's parameters, which is not
  among the sources. A text field is resolved and then scanned for embedded
  references; the absent value is the empty string; a required parameter that is
  missing fails with "missing parameter" and its name (the message the repository's
  test expects), and a value of the wrong type fails. A missing optional parameter is
  the zero value of its type.
\<close>

definition textParameter ::
  "(char \<Rightarrow> bool) \<Rightarrow> (char \<Rightarrow> bool) \<Rightarrow> testCallState \<Rightarrow> ModuleParameterList \<Rightarrow>
   requirement \<Rightarrow> string \<Rightarrow> error + string" where
  "textParameter nsChar keyChar call ps req named =
     (case Get ps named of (p, ok) \<Rightarrow>
        (if \<not> ok then
           (case req of
              Required \<Rightarrow> Inl (Err (''missing parameter '' @ named))
            | Optional \<Rightarrow> Inr [])
         else (case resolve call p of
           VString s \<Rightarrow> Inr (substitute nsChar keyChar (lookupNamespace call) s)
         | VNull \<Rightarrow> Inr []
         | _ \<Rightarrow> Inl (Err (''invalid parameter '' @ named)))))"

definition boolParameter ::
  "testCallState \<Rightarrow> ModuleParameterList \<Rightarrow> requirement \<Rightarrow> string \<Rightarrow> error + bool" where
  "boolParameter call ps req named =
     (case Get ps named of (p, ok) \<Rightarrow>
        (if \<not> ok then
           (case req of
              Required \<Rightarrow> Inl (Err (''missing parameter '' @ named))
            | Optional \<Rightarrow> Inr False)
         else (case resolve call p of
           VBool b \<Rightarrow> Inr b
         | _ \<Rightarrow> Inl (Err (''invalid parameter '' @ named)))))"

definition intParameter :: "testCallState \<Rightarrow> ModuleParameterList \<Rightarrow> string \<Rightarrow> error + int" where
  "intParameter call ps named =
     (case Get ps named of (p, ok) \<Rightarrow>
        (if \<not> ok then Inl (Err (''missing parameter '' @ named))
         else (case resolve call p of
           VNum n \<Rightarrow> Inr n
         | _ \<Rightarrow> Inl (Err (''invalid parameter '' @ named)))))"

text \<open>Sequencing of fallible steps: the first error is the result.\<close>

definition andThen :: "error + 'a \<Rightarrow> ('a \<Rightarrow> error + 'b) \<Rightarrow> error + 'b" where
  "andThen x f = (case x of Inl e \<Rightarrow> Inl e | Inr v \<Rightarrow> f v)"

section \<open>StoreUserInput\<close>

record storeUserInputParams =
  p_Text :: string
  p_TextToSpeechType :: string
  p_Timeout :: string
  p_MaxDigits :: int
  p_EncryptEntry :: bool
  p_DisableCancel :: bool
  p_TerminatorDigits :: string
  p_EncryptionKeyId :: string
  p_EncryptionKey :: string

text \<open>
  Modelled from the spec: the parameters of a StoreUserInput block, whose runner is
  not among the sources: Text, Timeout, MaxDigits and EncryptEntry, with the optional
  TextToSpeechType, DisableCancel, TerminatorDigits, EncryptionKeyId and
  EncryptionKey. (The repository's test runs a block without DisableCancel as far as
  the parse of its timeout, so that parameter is read as optional.)
\<close>

definition storeUserInput_params ::
  "(char \<Rightarrow> bool) \<Rightarrow> (char \<Rightarrow> bool) \<Rightarrow> testCallState \<Rightarrow> ModuleParameterList \<Rightarrow>
   error + storeUserInputParams" where
  "storeUserInput_params nsChar keyChar call ps =
     andThen (textParameter nsChar keyChar call ps Required ''Text'') (\<lambda>text.
     andThen (textParameter nsChar keyChar call ps Optional ''TextToSpeechType'') (\<lambda>tts.
     andThen (textParameter nsChar keyChar call ps Required ''Timeout'') (\<lambda>timeout.
     andThen (intParameter call ps ''MaxDigits'') (\<lambda>maxDigits.
     andThen (boolParameter call ps Required ''EncryptEntry'') (\<lambda>encryptEntry.
     andThen (boolParameter call ps Optional ''DisableCancel'') (\<lambda>disableCancel.
     andThen (textParameter nsChar keyChar call ps Optional ''TerminatorDigits'') (\<lambda>terminator.
     andThen (textParameter nsChar keyChar call ps Optional ''EncryptionKeyId'') (\<lambda>keyId.
     andThen (textParameter nsChar keyChar call ps Optional ''EncryptionKey'') (\<lambda>key.
     Inr \<lparr>p_Text = text, p_TextToSpeechType = tts, p_Timeout = timeout,
          p_MaxDigits = maxDigits, p_EncryptEntry = encryptEntry,
          p_DisableCancel = disableCancel, p_TerminatorDigits = terminator,
          p_EncryptionKeyId = keyId, p_EncryptionKey = key\<rparr>)))))))))"

text \<open>
  Go's \<^verbatim>\<open>strconv.Atoi\<close>: an optional sign and at least one decimal digit, within
  the range of a 64-bit \<^verbatim>\<open>int\<close>.
\<close>

definition digit_value :: "char \<Rightarrow> nat option" where
  "digit_value c =
     (let n = (of_char c :: nat) in if 48 \<le> n \<and> n \<le> 57 then Some (n - 48) else None)"

fun digits_value :: "nat \<Rightarrow> string \<Rightarrow> nat option" where
  "digits_value acc [] = Some acc"
| "digits_value acc (c # cs) =
     (case digit_value c of None \<Rightarrow> None | Some d \<Rightarrow> digits_value (10 * acc + d) cs)"

definition Atoi :: "string \<Rightarrow> error + int" where
  "Atoi s =
     (let (negative, ds) =
        (case s of
           c # cs \<Rightarrow>
             if c = CHR ''-'' then (True, cs) else if c = CHR ''+'' then (False, cs) else (False, s)
         | [] \<Rightarrow> (False, s))
      in if ds = [] then Inl (NumError ''Atoi'' s ''invalid syntax'')
         else (case digits_value 0 ds of
           None \<Rightarrow> Inl (NumError ''Atoi'' s ''invalid syntax'')
         | Some n \<Rightarrow>
             (let v = (if negative then - int n else int n)
              in if v < - (2 ^ 63) \<or> 2 ^ 63 \<le> v
                 then Inl (NumError ''Atoi'' s ''value out of range'')
                 else Inr v)))"

text \<open>
  Go's \<^verbatim>\<open>base64.StdEncoding.EncodeToString\<close> (RFC 4648 with padding): three bytes
  give four characters of the standard alphabet.
\<close>

definition encodeStd :: string where
  "encodeStd = ''ABCDEFGHIJKLMNOPQRSTUVWXYZabcdefghijklmnopqrstuvwxyz0123456789+/''"

definition sextet :: "nat \<Rightarrow> char" where
  "sextet n = encodeStd ! (n mod 64)"

fun encode_bytes :: "nat list \<Rightarrow> string" where
  "encode_bytes (a # b # c # rest) =
     [sextet (a div 4), sextet ((a mod 4) * 16 + b div 16),
      sextet ((b mod 16) * 4 + c div 64), sextet (c mod 64)] @ encode_bytes rest"
| "encode_bytes [a, b] =
     [sextet (a div 4), sextet ((a mod 4) * 16 + b div 16), sextet ((b mod 16) * 4), CHR ''='']"
| "encode_bytes [a] = [sextet (a div 4), sextet ((a mod 4) * 16), CHR ''='', CHR ''='']"
| "encode_bytes [] = []"

definition EncodeToString :: "string \<Rightarrow> string" where
  "EncodeToString src = encode_bytes (map of_char src)"

text \<open>The terminator: the first character of TerminatorDigits, \<^verbatim>\<open>#\<close> when it is empty.\<close>

definition terminatorOf :: "string \<Rightarrow> char" where
  "terminatorOf s = (case s of [] \<Rightarrow> CHR ''#'' | c # cs \<Rightarrow> c)"

text \<open>
  Modelled from the spec: \<^verbatim>\<open>storeUserInput.Run\<close>, which is not among the sources
  (its test is). The runner checks the block's type, reads the parameters, parses the
  timeout (a malformed value is a fatal parse error), sends the resolved text as speech
  (SSML per TextToSpeechType), and waits for up to MaxDigits characters or the
  terminator within the timeout (seconds, passed as a duration in nanoseconds). On a
  timeout the call proceeds to Success without updating last-input. On receipt, with
  EncryptEntry set, the raw input, the key id and the certificate bytes go through the
  encryption hook and the base64 encoding of the result is stored as last-input;
  otherwise the raw input is stored. The call then proceeds to Success.
\<close>

definition storeUserInput_Run ::
  "(char \<Rightarrow> bool) \<Rightarrow> (char \<Rightarrow> bool) \<Rightarrow> Module \<Rightarrow> testCallState \<Rightarrow> run_result" where
  "storeUserInput_Run nsChar keyChar m call =
     (if Type m \<noteq> ModuleStoreUserInput
      then (Inl (Err (''module of type '' @ Type m @ '' being run as storeUserInput'')), call)
      else (case storeUserInput_params nsChar keyChar call (Parameters m) of
        Inl err \<Rightarrow> (Inl err, call)
      | Inr p \<Rightarrow>
          (case Atoi (p_Timeout p) of
             Inl err \<Rightarrow> (Inl err, call)
           | Inr timeout \<Rightarrow>
               (let call1 = Send call (p_Text p) (p_TextToSpeechType p = ''ssml'') in
                case Receive call1 (p_MaxDigits p) (timeout * 1000000000)
                       (terminatorOf (p_TerminatorDigits p)) of
                  ((entry, ok), call2) \<Rightarrow>
                    (if \<not> ok then (Inr (GetLink (Branches m) BranchSuccess), call2)
                     else if p_EncryptEntry p then
                       (case Encrypt call2 entry (p_EncryptionKeyId p) (p_EncryptionKey p) of
                          Inl err \<Rightarrow> (Inl err, call2)
                        | Inr encrypted \<Rightarrow>
                            (Inr (GetLink (Branches m) BranchSuccess),
                             SetSystem call2 SystemLastUserInput (EncodeToString encrypted)))
                     else (Inr (GetLink (Branches m) BranchSuccess),
                           SetSystem call2 SystemLastUserInput entry))))))"

section \<open>Dispatch\<close>

text \<open>
  Each runner type of package \<^verbatim>\<open>module\<close> is a named type over
  \<^verbatim>\<open>flow.Module\<close>; a \<^verbatim>\<open>Runner\<close> is a block tagged with its runner type. The
  twelve runner types are those of the repository's \<^verbatim>\<open>TestMakeRunner\<close>.
\<close>

datatype Runner =
    storeUserInput Module
  | checkAttribute Module
  | transfer Module
  | playPrompt Module
  | disconnect Module
  | setQueue Module
  | getUserInput Module
  | setAttributes Module
  | invokeExternalResource Module
  | checkHoursOfOperation Module
  | setVoice Module
  | passthrough Module

text \<open>The known types of block, in the order of their declaration.\<close>

definition knownTypes :: "ModuleType list" where
  "knownTypes =
     [ModuleStoreUserInput, ModuleCheckAttribute, ModuleTransfer, ModulePlayPrompt,
      ModuleDisconnect, ModuleSetQueue, ModuleGetUserInput, ModuleSetAttributes,
      ModuleInvokeExternalResource, ModuleCheckHoursOfOperation, ModuleSetVoice]"

text \<open>
  Modelled from the spec: \<^verbatim>\<open>MakeRunner\<close>, which is not among the sources (its test
  is): a total mapping from the block's type tag to a runner, one runner per known
  type, and the passthrough runner for every other tag.
\<close>

definition MakeRunner :: "Module \<Rightarrow> Runner" where
  "MakeRunner m =
     (if Type m = ModuleStoreUserInput then storeUserInput m
      else if Type m = ModuleCheckAttribute then checkAttribute m
      else if Type m = ModuleTransfer then transfer m
      else if Type m = ModulePlayPrompt then playPrompt m
      else if Type m = ModuleDisconnect then disconnect m
      else if Type m = ModuleSetQueue then setQueue m
      else if Type m = ModuleGetUserInput then getUserInput m
      else if Type m = ModuleSetAttributes then setAttributes m
      else if Type m = ModuleInvokeExternalResource then invokeExternalResource m
      else if Type m = ModuleCheckHoursOfOperation then checkHoursOfOperation m
      else if Type m = ModuleSetVoice then setVoice m
      else passthrough m)"

text \<open>
  Modelled from the spec: \<^verbatim>\<open>passthrough.Run\<close>, which is not among the sources: its
  only behaviour is to follow the block's Success branch if present, and to end the
  call otherwise.
\<close>

definition passthrough_Run :: "Module \<Rightarrow> testCallState \<Rightarrow> run_result" where
  "passthrough_Run m call = (Inr (GetLink (Branches m) BranchSuccess), call)"

section \<open>Concrete blocks, states and simulators\<close>

text \<open>Two branches, \<open>Success\<close> to block \<open>s1\<close> and \<open>Error\<close> to block \<open>e1\<close>.\<close>

definition branches_Success_Error :: ModuleBranchList where
  "branches_Success_Error =
     [\<lparr>Condition = BranchSuccess, ConditionType = [], ConditionValue = VNull, Transition = ''s1''\<rparr>,
      \<lparr>Condition = BranchError, ConditionType = [], ConditionValue = VNull, Transition = ''e1''\<rparr>]"

definition block_transfer_queue :: Module where
  "block_transfer_queue =
     \<lparr>ID = ''b1'', Type = ModuleTransfer, Branches = branches_Success_Error,
      Parameters = [], Metadata = [], Target = TargetQueue\<rparr>"

definition param_BlindTransfer :: "bool \<Rightarrow> ModuleParameter" where
  "param_BlindTransfer b =
     \<lparr>Name = ''BlindTransfer'', Key = [], Value = VBool b, Namespace = None, ResourceName = []\<rparr>"

definition param_PhoneNumber :: ModuleParameter where
  "param_PhoneNumber =
     \<lparr>Name = ''PhoneNumber'', Key = [], Value = VString ''+441632960000'', Namespace = None,
      ResourceName = []\<rparr>"

definition block_transfer_number :: "bool \<Rightarrow> Module" where
  "block_transfer_number b =
     \<lparr>ID = ''b2'', Type = ModuleTransfer, Branches = branches_Success_Error,
      Parameters = [param_BlindTransfer b, param_PhoneNumber], Metadata = [],
      Target = TargetPhoneNumber\<rparr>"

text \<open>A transfer to a phone number whose only parameter is \<open>BlindTransfer\<close>.\<close>

definition block_transfer_no_number :: Module where
  "block_transfer_no_number =
     \<lparr>ID = ''b3'', Type = ModuleTransfer, Branches = branches_Success_Error,
      Parameters = [param_BlindTransfer True], Metadata = [], Target = TargetPhoneNumber\<rparr>"

definition block_disconnect :: Module where
  "block_disconnect =
     \<lparr>ID = ''b4'', Type = ModuleDisconnect, Branches = [], Parameters = [], Metadata = [],
      Target = []\<rparr>"

definition flow_main :: Flow where
  "flow_main =
     \<lparr>Modules = [block_transfer_queue, block_disconnect], Start = ''b1'',
      Flow_Metadata = \<lparr>Metadata_Name = ''main'', Metadata_Description = [],
                        Metadata_Type = ''contactFlow''\<rparr>\<rparr>"

text \<open>A block of a type this system does not know (the one of \<^verbatim>\<open>TestMakeRunner\<close>).\<close>

definition block_unknown :: Module where
  "block_unknown =
     \<lparr>ID = ''b5'', Type = ''WhatIsThisIDontEven'', Branches = branches_Success_Error,
      Parameters = [], Metadata = [], Target = []\<rparr>"

text \<open>Letters and digits, as the character class of namespaces and keys.\<close>

definition alnum :: "char \<Rightarrow> bool" where
  "alnum c =
     (let n = (of_char c :: nat)
      in (48 \<le> n \<and> n \<le> 57) \<or> (65 \<le> n \<and> n \<le> 90) \<or> (97 \<le> n \<and> n \<le> 122))"

text \<open>
  The blocks and states of the repository's \<^verbatim>\<open>TestStoreUserInput\<close>:
  \<^verbatim>\<open>jsonOK\<close> and \<^verbatim>\<open>jsonOKEncrypted\<close>, and the states of its cases "timeout",
  "success" and "success - encrypted".
\<close>

definition param :: "string \<Rightarrow> jvalue \<Rightarrow> ModuleParameterNamespace option \<Rightarrow> ModuleParameter" where
  "param n v ns = \<lparr>Name = n, Key = [], Value = v, Namespace = ns, ResourceName = []\<rparr>"

definition branches_test :: ModuleBranchList where
  "branches_test =
     [\<lparr>Condition = BranchSuccess, ConditionType = [], ConditionValue = VNull,
       Transition = ''00000000-0000-4000-0000-000000000001''\<rparr>,
      \<lparr>Condition = BranchError, ConditionType = [], ConditionValue = VNull,
       Transition = ''00000000-0000-4000-0000-000000000002''\<rparr>]"

definition jsonOK :: Module where
  "jsonOK =
     \<lparr>ID = ''55c7b51c-ab55-4c63-ac42-235b4a0f904f'', Type = ModuleStoreUserInput,
      Branches = branches_test,
      Parameters =
        [param ''Text'' (VString ''prompt'') (Some NamespaceExternal),
         param ''TextToSpeechType'' (VString ''ssml'') None,
         param ''CustomerInputType'' (VString ''Custom'') None,
         param ''Timeout'' (VString ''7'') None,
         param ''MaxDigits'' (VNum 8) None,
         param ''EncryptEntry'' (VBool False) None,
         param ''DisableCancel'' (VBool True) None],
      Metadata = [], Target = []\<rparr>"

definition jsonOKEncrypted :: Module where
  "jsonOKEncrypted =
     \<lparr>ID = ''55c7b51c-ab55-4c63-ac42-235b4a0f904f'', Type = ModuleStoreUserInput,
      Branches = branches_test,
      Parameters =
        [param ''Text'' (VString ''hello'') None,
         param ''TextToSpeechType'' (VString ''ssml'') None,
         param ''CustomerInputType'' (VString ''Custom'') None,
         param ''Timeout'' (VString ''7'') None,
         param ''MaxDigits'' (VNum 8) None,
         param ''EncryptEntry'' (VBool True) None,
         param ''DisableCancel'' (VBool True) None,
         param ''EncryptionKeyId'' (VString ''fa0ef83f-fbfa-4acd-9bdb-a8564d35490e'') None,
         param ''EncryptionKey''
           (VString (''-----BEGIN CERTIFICATE-----'' @ [CHR 0x0A] @ ''-----END CERTIFICATE-----''))
           None],
      Metadata = [], Target = []\<rparr>"

text \<open>The other blocks of that test: \<^verbatim>\<open>jsonBadMod\<close>, \<^verbatim>\<open>jsonBadParam\<close>,
  \<^verbatim>\<open>jsonBadTimeout\<close> and \<^verbatim>\<open>jsonOKCustomTerminator\<close>.\<close>

definition jsonBadMod :: Module where
  "jsonBadMod =
     \<lparr>ID = ''43dcc4f2-3392-4a38-90ed-0216f8594ea8'', Type = ModuleTransfer, Branches = [],
      Parameters = [], Metadata = [], Target = []\<rparr>"

definition jsonBadParam :: Module where
  "jsonBadParam =
     \<lparr>ID = ''43dcc4f2-3392-4a38-90ed-0216f8594ea8'', Type = ModuleStoreUserInput, Branches = [],
      Parameters = [], Metadata = [], Target = []\<rparr>"

definition jsonBadTimeout :: Module where
  "jsonBadTimeout =
     \<lparr>ID = ''55c7b51c-ab55-4c63-ac42-235b4a0f904f'', Type = ModuleStoreUserInput, Branches = [],
      Parameters =
        [param ''Text'' (VString ''prompt'') (Some NamespaceExternal),
         param ''Timeout'' (VString ''fishcake'') None,
         param ''MaxDigits'' (VNum 8) None,
         param ''TextToSpeechType'' (VString ''text'') None,
         param ''EncryptEntry'' (VBool False) None],
      Metadata = [], Target = []\<rparr>"

definition jsonOKCustomTerminator :: Module where
  "jsonOKCustomTerminator =
     \<lparr>ID = ''55c7b51c-ab55-4c63-ac42-235b4a0f904f'', Type = ModuleStoreUserInput,
      Branches = branches_test,
      Parameters =
        [param ''Text'' (VString ''hello'') None,
         param ''TextToSpeechType'' (VString ''text'') None,
         param ''CustomerInputType'' (VString ''Custom'') None,
         param ''Timeout'' (VString ''7'') None,
         param ''MaxDigits'' (VNum 8) None,
         param ''EncryptEntry'' (VBool False) None,
         param ''DisableCancel'' (VBool False) None,
         param ''TerminatorDigits'' (VString ''0'') None],
      Metadata = [], Target = []\<rparr>"

definition state_timeout :: testCallState where
  "state_timeout =
     init (zeroCallState\<lparr>st_i := ''Timeout'',
       external := [''prompt'' \<mapsto> ''<speak>Please enter digits 1 and 3 of your passcode.</speak>'']\<rparr>)"

definition state_success :: testCallState where
  "state_success =
     init (zeroCallState\<lparr>st_i := ''12345678'',
       external :=
         [''prompt'' \<mapsto> ''<speak>Please enter digits $.External.digits of your passcode.</speak>'',
          ''digits'' \<mapsto> ''1 and 3'']\<rparr>)"

definition test_encrypt :: "string \<Rightarrow> string \<Rightarrow> string \<Rightarrow> string" where
  "test_encrypt inp keyID cert = ''<encrypt>'' @ inp @ ''</encrypt>''"

definition state_encrypted :: testCallState where
  "state_encrypted = init (zeroCallState\<lparr>st_i := ''12345678'', encrypt := Some test_encrypt\<rparr>)"

text \<open>The parameters read from \<^verbatim>\<open>jsonOK\<close> in the "timeout" case, and from \<^verbatim>\<open>jsonOKEncrypted\<close>.\<close>

definition params_jsonOK :: storeUserInputParams where
  "params_jsonOK =
     \<lparr>p_Text = ''<speak>Please enter digits 1 and 3 of your passcode.</speak>'',
      p_TextToSpeechType = ''ssml'', p_Timeout = ''7'', p_MaxDigits = 8, p_EncryptEntry = False,
      p_DisableCancel = True, p_TerminatorDigits = [], p_EncryptionKeyId = [],
      p_EncryptionKey = []\<rparr>"

definition params_jsonOKEncrypted :: storeUserInputParams where
  "params_jsonOKEncrypted =
     \<lparr>p_Text = ''hello'', p_TextToSpeechType = ''ssml'', p_Timeout = ''7'', p_MaxDigits = 8,
      p_EncryptEntry = True, p_DisableCancel = True, p_TerminatorDigits = [],
      p_EncryptionKeyId = ''fa0ef83f-fbfa-4acd-9bdb-a8564d35490e'',
      p_EncryptionKey = ''-----BEGIN CERTIFICATE-----'' @ [CHR 0x0A] @ ''-----END CERTIFICATE-----''\<rparr>"

section \<open>Branch lookup\<close>

lemma GetLink_None_iff: "GetLink mbl named = None \<longleftrightarrow> named \<notin> Condition ` set mbl"
  by (induction mbl) auto

lemma GetLink_first:
  "\<forall>q \<in> set pre. Condition q \<noteq> named \<Longrightarrow> Condition p = named \<Longrightarrow>
   GetLink (pre @ p # post) named = Some (Transition p)"
  by (induction pre) auto

text \<open>
  C3. For every branch list and label, \<open>GetLink\<close> returns the transition of the first
  branch in declaration order whose condition is the label: whenever the list splits
  into branches without the label, then a branch \<open>p\<close> with it, then any rest, the
  result is \<open>p\<close>'s transition. It returns no successor exactly when no branch of the
  list carries the label. The result is a function of the list and the label alone.
\<close>

theorem GetLink_first_match:
  "((\<forall>q \<in> set pre. Condition q \<noteq> named) \<and> Condition p = named \<longrightarrow>
      GetLink (pre @ p # post) named = Some (Transition p)) \<and>
   (GetLink mbl named = None \<longleftrightarrow> (\<forall>q \<in> set mbl. Condition q \<noteq> named))"
  using GetLink_first [of pre named p post] GetLink_None_iff [of mbl named] by auto

theorem GetLink_first_match_witness:
  "GetLink
     ([\<lparr>Condition = BranchError, ConditionType = [], ConditionValue = VNull, Transition = ''e1''\<rparr>] @
      \<lparr>Condition = BranchSuccess, ConditionType = [], ConditionValue = VNull, Transition = ''s1''\<rparr> #
      [\<lparr>Condition = BranchSuccess, ConditionType = [], ConditionValue = VNull, Transition = ''s2''\<rparr>])
     BranchSuccess = Some ''s1'' \<and>
   GetLink
     [\<lparr>Condition = BranchError, ConditionType = [], ConditionValue = VNull, Transition = ''e1''\<rparr>]
     BranchSuccess = None"
  using GetLink_first_match
    [of "[\<lparr>Condition = BranchError, ConditionType = [], ConditionValue = VNull, Transition = ''e1''\<rparr>]"
        BranchSuccess
        "\<lparr>Condition = BranchSuccess, ConditionType = [], ConditionValue = VNull, Transition = ''s1''\<rparr>"
        "[\<lparr>Condition = BranchSuccess, ConditionType = [], ConditionValue = VNull, Transition = ''s2''\<rparr>]"
        "[\<lparr>Condition = BranchError, ConditionType = [], ConditionValue = VNull, Transition = ''e1''\<rparr>]"]
  by simp

section \<open>Transfer\<close>

text \<open>
  C1. For every Transfer block with the Queue target: when the queue name or the queue
  ARN is not set in the call's system state, \<open>Run\<close> follows the Error branch (it
  returns the successor that \<open>GetLink\<close> finds for \<open>Error\<close>, not the one for
  \<open>Success\<close>), returns no error and leaves the connector as it was, so that no
  queue-transfer event is emitted. When both are set, \<open>Run\<close> appends exactly one
  queue-transfer event with the stored ARN and name to the event log, changes nothing
  else, and returns no successor.
\<close>

theorem transfer_Queue_target:
  assumes "Type m = ModuleTransfer" and "Target m = TargetQueue"
  shows "(GetSystem call SystemQueueName = None \<or> GetSystem call SystemQueueARN = None \<longrightarrow>
            transfer_Run m call = (Inr (GetLink (Branches m) BranchError), call)) \<and>
         (\<forall>queue arn. GetSystem call SystemQueueName = Some queue \<and>
                      GetSystem call SystemQueueARN = Some arn \<longrightarrow>
            transfer_Run m call =
              (Inr None, call\<lparr>events := events call @ [QueueTransferEvent arn queue]\<rparr>))"
  using assms by (auto simp: transfer_Run_def transfer_Queue_def Emit_def split: option.splits)

theorem transfer_Queue_target_witness:
  "transfer_Run block_transfer_queue (init zeroCallState) =
     (Inr (Some ''e1''), init zeroCallState) \<and>
   transfer_Run block_transfer_queue
     (SetSystem (SetSystem (init zeroCallState) SystemQueueARN ''arn:queue/7'') SystemQueueName ''Sales'') =
     (Inr None,
      (SetSystem (SetSystem (init zeroCallState) SystemQueueARN ''arn:queue/7'') SystemQueueName ''Sales'')
        \<lparr>events := [QueueTransferEvent ''arn:queue/7'' ''Sales'']\<rparr>)"
  using transfer_Queue_target [of block_transfer_queue "init zeroCallState"]
    transfer_Queue_target [of block_transfer_queue
      "SetSystem (SetSystem (init zeroCallState) SystemQueueARN ''arn:queue/7'') SystemQueueName ''Sales''"]
  by (simp add: block_transfer_queue_def branches_Success_Error_def init_def zeroCallState_def
      GetSystem_def SetSystem_def)

text \<open>
  C6, as the claim states it, fails: a Transfer block with the PhoneNumber target and a
  boolean \<open>BlindTransfer\<close> parameter, but without a \<open>PhoneNumber\<close> parameter, makes
  \<open>Run\<close> fail with "missing PhoneNumber parameter" and emit no event.
\<close>

theorem transfer_PhoneNumber_missing_number:
  "Type block_transfer_no_number = ModuleTransfer \<and>
   Target block_transfer_no_number = TargetPhoneNumber \<and>
   Get (Parameters block_transfer_no_number) ''BlindTransfer'' = (param_BlindTransfer True, True) \<and>
   Value (param_BlindTransfer True) = VBool True \<and>
   transfer_Run block_transfer_no_number (init zeroCallState) =
     (Inl (Err ''missing PhoneNumber parameter''), init zeroCallState) \<and>
   events (snd (transfer_Run block_transfer_no_number (init zeroCallState))) = []"
  by (simp add: block_transfer_no_number_def param_BlindTransfer_def transfer_Run_def
      transfer_PhoneNumber_def zeroModuleParameter_def init_def zeroCallState_def)

text \<open>
  C6, amended. For every Transfer block with the PhoneNumber target, a boolean
  \<open>BlindTransfer\<close> parameter and a \<open>PhoneNumber\<close> parameter whose value is a
  string: \<open>Run\<close> appends exactly one number-transfer event carrying that string to the
  event log and changes nothing else; it returns no successor when \<open>BlindTransfer\<close>
  is true, and the successor of the Success branch when it is false.
\<close>

theorem transfer_PhoneNumber_target:
  assumes "Type m = ModuleTransfer" and "Target m = TargetPhoneNumber"
    and "Get (Parameters m) ''BlindTransfer'' = (blind, True)" and "Value blind = VBool b"
    and "Get (Parameters m) ''PhoneNumber'' = (num, True)" and "Value num = VString tel"
  shows "transfer_Run m call =
           (Inr (if b then None else GetLink (Branches m) BranchSuccess),
            call\<lparr>events := events call @ [NumberTransferEvent tel]\<rparr>)"
  using assms by (simp add: transfer_Run_def transfer_PhoneNumber_def Emit_def)

theorem transfer_PhoneNumber_target_witness:
  "transfer_Run (block_transfer_number True) (init zeroCallState) =
     (Inr None, (init zeroCallState)\<lparr>events := [NumberTransferEvent ''+441632960000'']\<rparr>) \<and>
   transfer_Run (block_transfer_number False) (init zeroCallState) =
     (Inr (Some ''s1''), (init zeroCallState)\<lparr>events := [NumberTransferEvent ''+441632960000'']\<rparr>)"
  using transfer_PhoneNumber_target [of "block_transfer_number True" "param_BlindTransfer True" True
      param_PhoneNumber "''+441632960000''" "init zeroCallState"]
    transfer_PhoneNumber_target [of "block_transfer_number False" "param_BlindTransfer False" False
      param_PhoneNumber "''+441632960000''" "init zeroCallState"]
  by (simp add: block_transfer_number_def param_BlindTransfer_def param_PhoneNumber_def
      branches_Success_Error_def init_def zeroCallState_def)

section \<open>The check of the block's type\<close>

text \<open>
  C7. For each runner of the sources (\<open>disconnect\<close>, \<open>setQueue\<close>, \<open>transfer\<close>,
  \<open>setAttributes\<close>, and the \<open>transfer\<close> written against the call context) and every
  block whose type is not the runner's: \<open>Run\<close> returns the error "module of type T
  being run as R", and with it no successor; the connector (the context) is returned
  as it was given, so no event is emitted and nothing is written.
\<close>

theorem wrong_module_type:
  "(Type m \<noteq> ModuleDisconnect \<longrightarrow>
      disconnect_Run m call =
        (Inl (Err (''module of type '' @ Type m @ '' being run as disconnect'')), call)) \<and>
   (Type m \<noteq> ModuleSetQueue \<longrightarrow>
      setQueue_Run m call =
        (Inl (Err (''module of type '' @ Type m @ '' being run as setQueue'')), call)) \<and>
   (Type m \<noteq> ModuleTransfer \<longrightarrow>
      transfer_Run m call =
        (Inl (Err (''module of type '' @ Type m @ '' being run as transfer'')), call)) \<and>
   (Type m \<noteq> ModuleSetAttributes \<longrightarrow>
      setAttributes_Run UnmarshalParameters m ctx =
        (Inl (Err (''module of type '' @ Type m @ '' being run as setAttributes'')), ctx)) \<and>
   (Type m \<noteq> ModuleTransfer \<longrightarrow>
      transfer_Run_Context Send' GetFlowStart' m ctx' =
        (Inl (Err (''module of type '' @ Type m @ '' being run as transfer'')), ctx'))"
  by (simp add: disconnect_Run_def setQueue_Run_def transfer_Run_def setAttributes_Run_def
      transfer_Run_Context_def)

theorem wrong_module_type_witness:
  "disconnect_Run block_transfer_queue (init zeroCallState) =
     (Inl (Err ''module of type Transfer being run as disconnect''), init zeroCallState) \<and>
   setQueue_Run block_transfer_queue (init zeroCallState) =
     (Inl (Err ''module of type Transfer being run as setQueue''), init zeroCallState) \<and>
   transfer_Run block_disconnect (init zeroCallState) =
     (Inl (Err ''module of type Disconnect being run as transfer''), init zeroCallState) \<and>
   setAttributes_Run (\<lambda>c ps. Inr []) block_disconnect
       \<lparr>ContactData = Map.empty, System = Map.empty\<rparr> =
     (Inl (Err ''module of type Disconnect being run as setAttributes''),
      \<lparr>ContactData = Map.empty, System = Map.empty\<rparr>) \<and>
   transfer_Run_Context (\<lambda>c s. c) (\<lambda>c n. None) block_disconnect
       \<lparr>ContactData = Map.empty, System = Map.empty\<rparr> =
     (Inl (Err ''module of type Disconnect being run as transfer''),
      \<lparr>ContactData = Map.empty, System = Map.empty\<rparr>)"
  using wrong_module_type [of block_transfer_queue "init zeroCallState" "\<lambda>c ps. Inr []"
      "\<lparr>ContactData = Map.empty, System = Map.empty\<rparr>" "\<lambda>c s. c" "\<lambda>c n. None"
      "\<lparr>ContactData = Map.empty, System = Map.empty\<rparr>"]
    wrong_module_type [of block_disconnect "init zeroCallState" "\<lambda>c ps. Inr []"
      "\<lparr>ContactData = Map.empty, System = Map.empty\<rparr>" "\<lambda>c s. c" "\<lambda>c n. None"
      "\<lparr>ContactData = Map.empty, System = Map.empty\<rparr>"]
  by (simp add: block_transfer_queue_def block_disconnect_def)

section \<open>Event matchers\<close>

text \<open>
  C9. For every event, the queue-transfer matcher answers not-applicable
  (\<open>match = False\<close>, with \<open>pass = False\<close> and an empty \<open>got\<close>) when the event's type
  is not the queue-transfer kind. When it is, the event is a queue-transfer event, the
  matcher answers applicable (\<open>match = True\<close>), passes exactly when the event's queue
  name is the asserted name, and returns the event's queue name. So \<open>match\<close> is false
  exactly for the events of another kind, and the type assertion never panics. The
  flow-transfer matcher does the same with the flow-transfer kind and the flow name.
\<close>

theorem transfer_matchers:
  "(Event_Type evt \<noteq> TransferQueueType \<longrightarrow>
      queueTransferMatcher_match (QueueTransferMatcher named) evt = Inr (False, False, [])) \<and>
   (Event_Type evt = TransferQueueType \<longrightarrow>
      (\<exists>arn. evt = QueueTransferEvent arn (QueueName evt)) \<and>
      queueTransferMatcher_match (QueueTransferMatcher named) evt =
        Inr (True, QueueName evt = named, QueueName evt)) \<and>
   (Event_Type evt \<noteq> TransferFlowType \<longrightarrow>
      flowTransferMatcher_match (FlowTransferMatcher named) evt = Inr (False, False, [])) \<and>
   (Event_Type evt = TransferFlowType \<longrightarrow>
      (\<exists>arn. evt = FlowTransferEvent arn (FlowName evt)) \<and>
      flowTransferMatcher_match (FlowTransferMatcher named) evt =
        Inr (True, FlowName evt = named, FlowName evt))"
  by (cases evt) auto

theorem transfer_matchers_witness:
  "queueTransferMatcher_match (QueueTransferMatcher ''Sales'') (QueueTransferEvent ''arn:queue/7'' ''Sales'') =
     Inr (True, True, ''Sales'') \<and>
   flowTransferMatcher_match (FlowTransferMatcher ''Sales'') (QueueTransferEvent ''arn:queue/7'' ''Sales'') =
     Inr (False, False, []) \<and>
   queueTransferMatcher_match (QueueTransferMatcher ''main'') (FlowTransferEvent ''arn:flow/1'' ''main'') =
     Inr (False, False, []) \<and>
   flowTransferMatcher_match (FlowTransferMatcher ''other'') (FlowTransferEvent ''arn:flow/1'' ''main'') =
     Inr (True, False, ''main'')"
  using transfer_matchers [of "QueueTransferEvent ''arn:queue/7'' ''Sales''" "''Sales''"]
    transfer_matchers [of "FlowTransferEvent ''arn:flow/1'' ''main''" "''main''"]
    transfer_matchers [of "FlowTransferEvent ''arn:flow/1'' ''main''" "''other''"]
  by simp

section \<open>Starting a call\<close>

lemma telFlow_step:
  "telFlow (simulator_step d cs c) tel = None \<longleftrightarrow>
     telFlow cs tel = None \<and> (\<forall>name. c = CallSetStartingFlowFor tel name \<longrightarrow> flows cs name = None)"
  by (cases c) (auto simp: LoadFlow_def SetStartingFlowFor_def Let_def split: option.splits)

text \<open>
  A number has no starting flow after a sequence of set-up calls exactly when it had
  none before and every \<open>SetStartingFlowFor\<close> for it in the sequence named a flow that
  was not loaded at that moment.
\<close>

lemma telFlow_foldl:
  "telFlow (foldl (simulator_step d) cs calls) tel = None \<longleftrightarrow>
     telFlow cs tel = None \<and>
     (\<forall>pre name post. calls = pre @ CallSetStartingFlowFor tel name # post \<longrightarrow>
        flows (foldl (simulator_step d) cs pre) name = None)"
proof (induction calls arbitrary: cs)
  case Nil
  then show ?case by simp
next
  case (Cons c rest)
  let ?P = "\<lambda>s xs. \<forall>pre name post. xs = pre @ CallSetStartingFlowFor tel name # post \<longrightarrow>
        flows (foldl (simulator_step d) s pre) name = None"
  have unroll: "?P cs (c # rest) \<longleftrightarrow>
      (\<forall>name. c = CallSetStartingFlowFor tel name \<longrightarrow> flows cs name = None) \<and>
      ?P (simulator_step d cs c) rest"
  proof
    assume L: "?P cs (c # rest)"
    show "(\<forall>name. c = CallSetStartingFlowFor tel name \<longrightarrow> flows cs name = None) \<and>
      ?P (simulator_step d cs c) rest"
    proof (intro conjI allI impI)
      fix name assume "c = CallSetStartingFlowFor tel name"
      then have "c # rest = [] @ CallSetStartingFlowFor tel name # rest" by simp
      from L [rule_format, OF this] show "flows cs name = None" by simp
    next
      fix pre name post assume "rest = pre @ CallSetStartingFlowFor tel name # post"
      then have "c # rest = (c # pre) @ CallSetStartingFlowFor tel name # post" by simp
      from L [rule_format, OF this]
      show "flows (foldl (simulator_step d) (simulator_step d cs c) pre) name = None" by simp
    qed
  next
    assume R: "(\<forall>name. c = CallSetStartingFlowFor tel name \<longrightarrow> flows cs name = None) \<and>
      ?P (simulator_step d cs c) rest"
    show "?P cs (c # rest)"
    proof (intro allI impI)
      fix pre name post assume E: "c # rest = pre @ CallSetStartingFlowFor tel name # post"
      show "flows (foldl (simulator_step d) cs pre) name = None"
      proof (cases pre)
        case Nil
        with E R show ?thesis by simp
      next
        case (Cons a pre')
        with E have "a = c" "rest = pre' @ CallSetStartingFlowFor tel name # post" by simp_all
        with R Cons show ?thesis by simp
      qed
    qed
  qed
  have "telFlow (foldl (simulator_step d) cs (c # rest)) tel = None \<longleftrightarrow>
        telFlow (simulator_step d cs c) tel = None \<and> ?P (simulator_step d cs c) rest"
    using Cons.IH [of "simulator_step d cs c"] by simp
  also have "\<dots> \<longleftrightarrow> telFlow cs tel = None \<and> ?P cs (c # rest)"
    unfolding unroll telFlow_step by blast
  finally show ?case .
qed

text \<open>
  C10. \<open>StartCall\<close> returns an error, and with it no call, exactly when the
  destination number of the configuration is empty or the simulator holds no starting
  flow for that number; otherwise it returns the call that \<open>newCall\<close> makes with the
  \<open>Start\<close> identifier of the flow held for the number as its first block. A simulator
  set up from \<open>New\<close> by calls of \<open>LoadFlow\<close> and \<open>SetStartingFlowFor\<close> holds no starting
  flow for a number exactly when every \<open>SetStartingFlowFor\<close> for that number returned
  an error (none registered a flow).
\<close>

theorem StartCall_result:
  "(isl (StartCall newCall cs config) \<longleftrightarrow>
      DestNumber config = [] \<or> telFlow cs (DestNumber config) = None) \<and>
   (\<forall>f. DestNumber config \<noteq> [] \<and> telFlow cs (DestNumber config) = Some f \<longrightarrow>
      StartCall newCall cs config = Inr (newCall config cs (Start f))) \<and>
   (telFlow (simulator_after d calls) tel = None \<longleftrightarrow>
      (\<forall>pre name post. calls = pre @ CallSetStartingFlowFor tel name # post \<longrightarrow>
         fst (SetStartingFlowFor (simulator_after d pre) tel name) \<noteq> None))"
proof -
  have a: "telFlow New tel = None" by (simp add: New_def)
  have b: "\<And>s name. fst (SetStartingFlowFor s tel name) \<noteq> None \<longleftrightarrow> flows s name = None"
    by (simp add: SetStartingFlowFor_def split: option.splits)
  have c: "telFlow (simulator_after d calls) tel = None \<longleftrightarrow>
      (\<forall>pre name post. calls = pre @ CallSetStartingFlowFor tel name # post \<longrightarrow>
         fst (SetStartingFlowFor (simulator_after d pre) tel name) \<noteq> None)"
    unfolding b simulator_after_def using telFlow_foldl [of d New calls tel] a by simp
  have d: "isl (StartCall newCall cs config) \<longleftrightarrow>
      DestNumber config = [] \<or> telFlow cs (DestNumber config) = None"
    by (simp add: StartCall_def split: option.splits)
  have e: "\<forall>f. DestNumber config \<noteq> [] \<and> telFlow cs (DestNumber config) = Some f \<longrightarrow>
      StartCall newCall cs config = Inr (newCall config cs (Start f))"
    by (simp add: StartCall_def)
  from c d e show ?thesis by blast
qed

theorem StartCall_result_witness:
  "StartCall (\<lambda>config cs start. start)
     (simulator_after id [CallLoadFlow flow_main, CallSetStartingFlowFor ''+441632960000'' ''main''])
     \<lparr>DestNumber = ''+441632960000''\<rparr> = Inr ''b1'' \<and>
   isl (StartCall (\<lambda>config cs start. start)
     (simulator_after id [CallLoadFlow flow_main, CallSetStartingFlowFor ''+441632960000'' ''main''])
     \<lparr>DestNumber = []\<rparr>) \<and>
   isl (StartCall (\<lambda>config cs start. start)
     (simulator_after id [CallSetStartingFlowFor ''+441632960000'' ''main'', CallLoadFlow flow_main])
     \<lparr>DestNumber = ''+441632960000''\<rparr>)"
  using StartCall_result [of "\<lambda>config cs start. start"
      "simulator_after id [CallLoadFlow flow_main, CallSetStartingFlowFor ''+441632960000'' ''main'']"
      "\<lparr>DestNumber = ''+441632960000''\<rparr>" id "[]" "[]"]
    StartCall_result [of "\<lambda>config cs start. start"
      "simulator_after id [CallLoadFlow flow_main, CallSetStartingFlowFor ''+441632960000'' ''main'']"
      "\<lparr>DestNumber = []\<rparr>" id "[]" "[]"]
    StartCall_result [of "\<lambda>config cs start. start"
      "simulator_after id [CallSetStartingFlowFor ''+441632960000'' ''main'', CallLoadFlow flow_main]"
      "\<lparr>DestNumber = ''+441632960000''\<rparr>" id "[]" "[]"]
  by (simp add: simulator_after_def New_def LoadFlow_def SetStartingFlowFor_def flow_main_def)


section \<open>Dispatch to the passthrough runner\<close>

text \<open>
  C2. \<open>MakeRunner\<close> is a total function from blocks to runners: it has no error
  result. For a block whose type tag is outside the known types it returns the
  passthrough runner on that block, and it returns the passthrough runner on the block
  for no other tag. The passthrough runner's \<open>Run\<close> returns, without error and
  without touching the connector, the successor that \<open>GetLink\<close> finds for the Success
  label: the Success branch if present, and no successor when no branch carries that
  label.
\<close>

theorem MakeRunner_passthrough:
  "(Type m \<notin> set knownTypes \<longrightarrow> MakeRunner m = passthrough m) \<and>
   (MakeRunner m = passthrough m \<longrightarrow> Type m \<notin> set knownTypes) \<and>
   passthrough_Run m call = (Inr (GetLink (Branches m) BranchSuccess), call) \<and>
   ((\<forall>b \<in> set (Branches m). Condition b \<noteq> BranchSuccess) \<longrightarrow>
      passthrough_Run m call = (Inr None, call))"
proof -
  have a: "Type m \<notin> set knownTypes \<longrightarrow> MakeRunner m = passthrough m"
    by (simp add: knownTypes_def MakeRunner_def)
  have b: "MakeRunner m = passthrough m \<longrightarrow> Type m \<notin> set knownTypes"
    by (simp add: knownTypes_def MakeRunner_def split: if_splits)
  have c: "passthrough_Run m call = (Inr (GetLink (Branches m) BranchSuccess), call)"
    by (simp add: passthrough_Run_def)
  have d: "(\<forall>b \<in> set (Branches m). Condition b \<noteq> BranchSuccess) \<longrightarrow>
      passthrough_Run m call = (Inr None, call)"
    using GetLink_None_iff [of "Branches m" BranchSuccess] by (auto simp: passthrough_Run_def)
  from a b c d show ?thesis by blast
qed

theorem MakeRunner_passthrough_witness:
  "MakeRunner block_unknown = passthrough block_unknown \<and>
   passthrough_Run block_unknown (init zeroCallState) = (Inr (Some ''s1''), init zeroCallState) \<and>
   passthrough_Run (block_unknown\<lparr>Branches := []\<rparr>) (init zeroCallState) =
     (Inr None, init zeroCallState) \<and>
   MakeRunner block_transfer_queue = transfer block_transfer_queue"
  using MakeRunner_passthrough [of block_unknown "init zeroCallState"]
    MakeRunner_passthrough [of "block_unknown\<lparr>Branches := []\<rparr>" "init zeroCallState"]
    MakeRunner_passthrough [of block_transfer_queue "init zeroCallState"]
  by (simp add: block_unknown_def block_transfer_queue_def branches_Success_Error_def knownTypes_def
      MakeRunner_def)

section \<open>Template substitution\<close>

text \<open>The segments of a scan, written back, are the text that was scanned.\<close>

lemma scan_raw: "concat (map raw (scan nsChar keyChar s)) = s"
proof (induction nsChar keyChar s rule: scan.induct)
  case (1 nsChar keyChar)
  show ?case by simp
next
  case (2 nsChar keyChar c cs)
  show ?case
  proof (cases "reference_at nsChar keyChar (c # cs)")
    case None
    with "2.IH"(1) show ?thesis by simp
  next
    case (Some t)
    obtain ns key rest where t: "t = (ns, key, rest)" by (cases t)
    from Some t have "c # cs = ''$.'' @ ns @ ''.'' @ key @ rest"
      by (auto dest: reference_at_text)
    moreover from "2.IH"(2) Some t have "concat (map raw (scan nsChar keyChar rest)) = rest"
      by simp
    ultimately show ?thesis using Some t by simp
  qed
qed

lemma render_miss:
  "\<forall>ns key. Reference ns key \<in> set segs \<longrightarrow> lookup ns key = None \<Longrightarrow>
   concat (map (render lookup) segs) = concat (map raw segs)"
proof (induction segs)
  case Nil
  show ?case by simp
next
  case (Cons g segs)
  then have "render lookup g = raw g" by (cases g) auto
  with Cons show ?case by simp
qed

lemma scan_no_marker:
  "\<forall>pre post. s \<noteq> pre @ ''$.'' @ post \<Longrightarrow> Reference ns key \<notin> set (scan nsChar keyChar s)"
proof (induction nsChar keyChar s rule: scan.induct)
  case (1 nsChar keyChar)
  show ?case by simp
next
  case (2 nsChar keyChar c cs)
  have no_ref: "reference_at nsChar keyChar (c # cs) = None"
  proof (cases "reference_at nsChar keyChar (c # cs)")
    case None
    then show ?thesis .
  next
    case (Some t)
    obtain ns' key' rest where "t = (ns', key', rest)" by (cases t)
    with Some have "c # cs = [] @ ''$.'' @ (ns' @ ''.'' @ key' @ rest)"
      by (auto dest: reference_at_text)
    with "2.prems" show ?thesis by blast
  qed
  have "\<forall>pre post. cs \<noteq> pre @ ''$.'' @ post"
  proof (intro allI notI)
    fix pre post assume "cs = pre @ ''$.'' @ post"
    then have "c # cs = (c # pre) @ ''$.'' @ post" by simp
    with "2.prems" show False by blast
  qed
  with "2.IH"(1) no_ref have "Reference ns key \<notin> set (scan nsChar keyChar cs)" by simp
  with no_ref show ?case by simp
qed

text \<open>
  C8. Template substitution returns unchanged every text in which \<^verbatim>\<open>$.\<close> does not
  occur, so it is idempotent there. The scan cuts a text into literal characters and
  references whose texts, in order, make up the text again, and the reference
  \<^verbatim>\<open>$.ns.key\<close> whose lookup misses is rendered as its own text: it is left verbatim
  in the output. Hence a text in which no reference has a successful lookup is
  returned as it is.
\<close>

theorem substitute_unresolved:
  "((\<forall>pre post. s \<noteq> pre @ ''$.'' @ post) \<longrightarrow> substitute nsChar keyChar lookup s = s) \<and>
   concat (map raw (scan nsChar keyChar s)) = s \<and>
   (lookup ns key = None \<longrightarrow> render lookup (Reference ns key) = ''$.'' @ ns @ ''.'' @ key) \<and>
   ((\<forall>ns key. Reference ns key \<in> set (scan nsChar keyChar s) \<longrightarrow> lookup ns key = None) \<longrightarrow>
      substitute nsChar keyChar lookup s = s)"
proof -
  have miss: "(\<forall>ns key. Reference ns key \<in> set (scan nsChar keyChar s) \<longrightarrow> lookup ns key = None) \<longrightarrow>
      substitute nsChar keyChar lookup s = s"
    unfolding substitute_def using render_miss [of "scan nsChar keyChar s" lookup] scan_raw [of nsChar keyChar s]
    by simp
  have none: "(\<forall>pre post. s \<noteq> pre @ ''$.'' @ post) \<longrightarrow> substitute nsChar keyChar lookup s = s"
  proof
    assume "\<forall>pre post. s \<noteq> pre @ ''$.'' @ post"
    then have "\<forall>ns key. Reference ns key \<in> set (scan nsChar keyChar s) \<longrightarrow> lookup ns key = None"
      using scan_no_marker by blast
    with miss show "substitute nsChar keyChar lookup s = s" by blast
  qed
  have one: "lookup ns key = None \<longrightarrow> render lookup (Reference ns key) = ''$.'' @ ns @ ''.'' @ key"
    by simp
  from none scan_raw [of nsChar keyChar s] one miss show ?thesis by blast
qed

lemmas resolver_defs =
  substitute_def reference_at_def alnum_def lookupNamespace_def GetExternal_def GetSystem_def
  GetContactData_def init_def zeroCallState_def Let_def

theorem substitute_unresolved_witness:
  "substitute alnum alnum (lookupNamespace state_success) ''Please enter your passcode.'' =
     ''Please enter your passcode.'' \<and>
   scan alnum alnum ''Enter digits $.External.missing now'' =
     map Literal ''Enter digits '' @ [Reference ''External'' ''missing''] @ map Literal '' now'' \<and>
   lookupNamespace state_success ''External'' ''missing'' = None \<and>
   render (lookupNamespace state_success) (Reference ''External'' ''missing'') = ''$.External.missing'' \<and>
   substitute alnum alnum (lookupNamespace state_success) ''Enter digits $.External.missing now'' =
     ''Enter digits $.External.missing now''"
  using substitute_unresolved [of "''Please enter your passcode.''" alnum alnum
      "lookupNamespace state_success" "''External''" "''missing''"]
    substitute_unresolved [of "''Enter digits $.External.missing now''" alnum alnum
      "lookupNamespace state_success" "''External''" "''missing''"]
  by (simp add: resolver_defs state_success_def)

section \<open>StoreUserInput: timeout and encryption\<close>

text \<open>
  C4. For every StoreUserInput block whose parameters are read without error and
  whose timeout parses: when the receive operation times out (the connector of the
  tests reports that for the inputs \<^verbatim>\<open>""\<close> and \<^verbatim>\<open>"Timeout"\<close>), \<open>Run\<close> returns
  the successor of the Success branch, and the connector it leaves is the one after
  the send and the receive: the system store is unchanged, so last-input keeps the
  value (or the absence) it had, and the external store, the caller attributes and the
  event log are unchanged as well.
\<close>

theorem storeUserInput_timeout:
  assumes "Type m = ModuleStoreUserInput"
    and "storeUserInput_params nsChar keyChar call (Parameters m) = Inr p"
    and "Atoi (p_Timeout p) = Inr timeout"
    and "st_i call = [] \<or> st_i call = ''Timeout''"
  shows "storeUserInput_Run nsChar keyChar m call =
           (Inr (GetLink (Branches m) BranchSuccess),
            snd (Receive (Send call (p_Text p) (p_TextToSpeechType p = ''ssml''))
                   (p_MaxDigits p) (timeout * 1000000000) (terminatorOf (p_TerminatorDigits p)))) \<and>
         system (snd (storeUserInput_Run nsChar keyChar m call)) = system call \<and>
         GetSystem (snd (storeUserInput_Run nsChar keyChar m call)) SystemLastUserInput =
           GetSystem call SystemLastUserInput \<and>
         external (snd (storeUserInput_Run nsChar keyChar m call)) = external call \<and>
         contactData (snd (storeUserInput_Run nsChar keyChar m call)) = contactData call \<and>
         events (snd (storeUserInput_Run nsChar keyChar m call)) = events call"
  using assms by (auto simp: storeUserInput_Run_def Send_def Receive_def Let_def GetSystem_def)

lemmas eval_defs =
  storeUserInput_Run_def storeUserInput_params_def andThen_def textParameter_def
  boolParameter_def intParameter_def resolve_def param_def Atoi_def digit_value_def Send_def
  Receive_def terminatorOf_def SetSystem_def branches_test_def zeroModuleParameter_def
  Encrypt_def test_encrypt_def resolver_defs

lemma jsonOK_params:
  "storeUserInput_params alnum alnum state_timeout (Parameters jsonOK) = Inr params_jsonOK"
  by (simp add: eval_defs jsonOK_def state_timeout_def params_jsonOK_def)

lemma jsonOK_params_prior:
  "storeUserInput_params alnum alnum (SetSystem state_timeout SystemLastUserInput ''4321'') (Parameters jsonOK) = Inr params_jsonOK"
  by (simp add: eval_defs jsonOK_def state_timeout_def params_jsonOK_def)

lemma Atoi_7: "Atoi ''7'' = Inr 7"
  by (simp add: Atoi_def digit_value_def)

theorem storeUserInput_timeout_witness:
  "storeUserInput_Run alnum alnum jsonOK state_timeout =
     (Inr (Some ''00000000-0000-4000-0000-000000000001''),
      state_timeout\<lparr>st_o := ''<speak>Please enter digits 1 and 3 of your passcode.</speak>'',
        oSSML := True, rcv_count := 8, rcv_timeout := 7000000000, rcv_terminator := CHR ''#''\<rparr>) \<and>
   GetSystem (snd (storeUserInput_Run alnum alnum jsonOK state_timeout)) SystemLastUserInput = None \<and>
   GetSystem (snd (storeUserInput_Run alnum alnum jsonOK
       (SetSystem state_timeout SystemLastUserInput ''4321''))) SystemLastUserInput = Some ''4321''"
proof -
  have t: "st_i state_timeout = [] \<or> st_i state_timeout = ''Timeout''"
    by (simp add: state_timeout_def init_def zeroCallState_def)
  have t': "st_i (SetSystem state_timeout SystemLastUserInput ''4321'') = [] \<or>
            st_i (SetSystem state_timeout SystemLastUserInput ''4321'') = ''Timeout''"
    by (simp add: state_timeout_def init_def zeroCallState_def SetSystem_def)
  have ty: "Type jsonOK = ModuleStoreUserInput" by (simp add: jsonOK_def)
  have a: "Atoi (p_Timeout params_jsonOK) = Inr 7" by (simp add: params_jsonOK_def Atoi_7)
  note r1 = storeUserInput_timeout [OF ty jsonOK_params a t]
  note r2 = storeUserInput_timeout [OF ty jsonOK_params_prior a t']
  from r1 r2 show ?thesis
    by (simp add: params_jsonOK_def jsonOK_def branches_test_def Send_def Receive_def terminatorOf_def
        state_timeout_def init_def zeroCallState_def GetSystem_def SetSystem_def)
qed

text \<open>
  C5. For every StoreUserInput block whose parameters are read without error with
  EncryptEntry set, whose timeout parses, for every encryption hook \<open>f\<close> of the
  connector and every input received within the timeout: \<open>Run\<close> follows Success and
  stores as last-input the standard base64 encoding of \<open>f\<close> applied to the raw input,
  the resolved \<open>EncryptionKeyId\<close> parameter and the bytes of the resolved
  \<open>EncryptionKey\<close> parameter. With the hook of the repository's test and the input
  \<^verbatim>\<open>12345678\<close> that is the base64 encoding of \<^verbatim>\<open><encrypt>12345678</encrypt>\<close>.
\<close>

theorem storeUserInput_encrypted:
  assumes "Type m = ModuleStoreUserInput"
    and "storeUserInput_params nsChar keyChar call (Parameters m) = Inr p"
    and "Atoi (p_Timeout p) = Inr timeout"
    and "st_i call \<noteq> []" and "st_i call \<noteq> ''Timeout''"
    and "p_EncryptEntry p" and "encrypt call = Some f"
  shows "storeUserInput_Run nsChar keyChar m call =
           (Inr (GetLink (Branches m) BranchSuccess),
            SetSystem
              (snd (Receive (Send call (p_Text p) (p_TextToSpeechType p = ''ssml''))
                     (p_MaxDigits p) (timeout * 1000000000) (terminatorOf (p_TerminatorDigits p))))
              SystemLastUserInput
              (EncodeToString (f (st_i call) (p_EncryptionKeyId p) (p_EncryptionKey p)))) \<and>
         GetSystem (snd (storeUserInput_Run nsChar keyChar m call)) SystemLastUserInput =
           Some (EncodeToString (f (st_i call) (p_EncryptionKeyId p) (p_EncryptionKey p))) \<and>
         textParameter nsChar keyChar call (Parameters m) Optional ''EncryptionKeyId'' =
           Inr (p_EncryptionKeyId p) \<and>
         textParameter nsChar keyChar call (Parameters m) Optional ''EncryptionKey'' =
           Inr (p_EncryptionKey p) \<and>
         EncodeToString (test_encrypt ''12345678'' keyID cert) =
           EncodeToString ''<encrypt>12345678</encrypt>'' \<and>
         EncodeToString ''<encrypt>12345678</encrypt>'' = ''PGVuY3J5cHQ+MTIzNDU2Nzg8L2VuY3J5cHQ+''"
proof -
  have run: "storeUserInput_Run nsChar keyChar m call =
           (Inr (GetLink (Branches m) BranchSuccess),
            SetSystem
              (snd (Receive (Send call (p_Text p) (p_TextToSpeechType p = ''ssml''))
                     (p_MaxDigits p) (timeout * 1000000000) (terminatorOf (p_TerminatorDigits p))))
              SystemLastUserInput
              (EncodeToString (f (st_i call) (p_EncryptionKeyId p) (p_EncryptionKey p))))"
    using assms
    by (simp add: storeUserInput_Run_def Send_def Receive_def Let_def Encrypt_def)
  have sys: "GetSystem (snd (storeUserInput_Run nsChar keyChar m call)) SystemLastUserInput =
           Some (EncodeToString (f (st_i call) (p_EncryptionKeyId p) (p_EncryptionKey p)))"
    unfolding run by (simp add: GetSystem_def SetSystem_def)
  have keys: "textParameter nsChar keyChar call (Parameters m) Optional ''EncryptionKeyId'' =
           Inr (p_EncryptionKeyId p) \<and>
         textParameter nsChar keyChar call (Parameters m) Optional ''EncryptionKey'' =
           Inr (p_EncryptionKey p)"
    using assms(2) unfolding storeUserInput_params_def andThen_def
    by (auto split: sum.splits)
  have hook: "EncodeToString (test_encrypt ''12345678'' keyID cert) =
           EncodeToString ''<encrypt>12345678</encrypt>''"
    by (simp add: test_encrypt_def)
  have enc: "EncodeToString ''<encrypt>12345678</encrypt>'' = ''PGVuY3J5cHQ+MTIzNDU2Nzg8L2VuY3J5cHQ+''"
    by (simp add: EncodeToString_def sextet_def encodeStd_def)
  from run sys keys hook enc show ?thesis by blast
qed

lemma jsonOKEncrypted_params:
  "storeUserInput_params alnum alnum state_encrypted (Parameters jsonOKEncrypted) =
     Inr params_jsonOKEncrypted"
  by (simp add: eval_defs jsonOKEncrypted_def state_encrypted_def params_jsonOKEncrypted_def)

theorem storeUserInput_encrypted_witness:
  "storeUserInput_Run alnum alnum jsonOKEncrypted state_encrypted =
     (Inr (Some ''00000000-0000-4000-0000-000000000001''),
      state_encrypted\<lparr>st_o := ''hello'', oSSML := True, rcv_count := 8,
        rcv_timeout := 7000000000, rcv_terminator := CHR ''#'',
        system := [SystemLastUserInput \<mapsto> ''PGVuY3J5cHQ+MTIzNDU2Nzg8L2VuY3J5cHQ+'']\<rparr>) \<and>
   GetSystem (snd (storeUserInput_Run alnum alnum jsonOKEncrypted state_encrypted))
     SystemLastUserInput = Some ''PGVuY3J5cHQ+MTIzNDU2Nzg8L2VuY3J5cHQ+''"
proof -
  have ty: "Type jsonOKEncrypted = ModuleStoreUserInput" by (simp add: jsonOKEncrypted_def)
  have a: "Atoi (p_Timeout params_jsonOKEncrypted) = Inr 7"
    by (simp add: params_jsonOKEncrypted_def Atoi_7)
  have i1: "st_i state_encrypted \<noteq> []" and i2: "st_i state_encrypted \<noteq> ''Timeout''"
    by (simp_all add: state_encrypted_def init_def zeroCallState_def)
  have e: "p_EncryptEntry params_jsonOKEncrypted" by (simp add: params_jsonOKEncrypted_def)
  have h: "encrypt state_encrypted = Some test_encrypt"
    by (simp add: state_encrypted_def init_def zeroCallState_def)
  note r = storeUserInput_encrypted [OF ty jsonOKEncrypted_params a i1 i2 e h, of "[]" "[]"]
  have inp: "st_i state_encrypted = ''12345678''"
    by (simp add: state_encrypted_def init_def zeroCallState_def)
  have enc: "EncodeToString
      (test_encrypt (st_i state_encrypted) (p_EncryptionKeyId params_jsonOKEncrypted)
         (p_EncryptionKey params_jsonOKEncrypted)) = ''PGVuY3J5cHQ+MTIzNDU2Nzg8L2VuY3J5cHQ+''"
    using r unfolding inp by (simp add: test_encrypt_def)
  have next_block: "GetLink (Branches jsonOKEncrypted) BranchSuccess =
      Some ''00000000-0000-4000-0000-000000000001''"
    by (simp add: jsonOKEncrypted_def branches_test_def)
  have st: "SetSystem
      (snd (Receive
         (Send state_encrypted (p_Text params_jsonOKEncrypted)
            (p_TextToSpeechType params_jsonOKEncrypted = ''ssml''))
         (p_MaxDigits params_jsonOKEncrypted) (7 * 1000000000)
         (terminatorOf (p_TerminatorDigits params_jsonOKEncrypted))))
      SystemLastUserInput ''PGVuY3J5cHQ+MTIzNDU2Nzg8L2VuY3J5cHQ+'' =
    state_encrypted\<lparr>st_o := ''hello'', oSSML := True, rcv_count := 8,
        rcv_timeout := 7000000000, rcv_terminator := CHR ''#'',
        system := [SystemLastUserInput \<mapsto> ''PGVuY3J5cHQ+MTIzNDU2Nzg8L2VuY3J5cHQ+'']\<rparr>"
    by (simp add: params_jsonOKEncrypted_def Send_def Receive_def terminatorOf_def
        state_encrypted_def init_def zeroCallState_def SetSystem_def)
  from r show ?thesis
    unfolding enc next_block st by blast
qed

section \<open>The StoreUserInput model on the cases of the repository's test\<close>

text \<open>
  The model gives, in each case of \<^verbatim>\<open>TestStoreUserInput\<close>, the successor or error,
  the prompt, the arguments of the receive and the system store that the test expects
  ("timeout" and "success - encrypted" are the two witnesses above).
\<close>

lemma storeUserInput_test_success:
  "storeUserInput_Run alnum alnum jsonOK state_success =
     (Inr (Some ''00000000-0000-4000-0000-000000000001''),
      state_success\<lparr>st_o := ''<speak>Please enter digits 1 and 3 of your passcode.</speak>'',
        oSSML := True, rcv_count := 8, rcv_timeout := 7000000000, rcv_terminator := CHR ''#'',
        system := [SystemLastUserInput \<mapsto> ''12345678'']\<rparr>)"
  by (simp add: eval_defs jsonOK_def state_success_def)

lemma storeUserInput_test_wrong_module:
  "storeUserInput_Run alnum alnum jsonBadMod (init zeroCallState) =
     (Inl (Err ''module of type Transfer being run as storeUserInput''), init zeroCallState)"
  by (simp add: storeUserInput_Run_def jsonBadMod_def)

lemma storeUserInput_test_missing_parameter:
  "storeUserInput_Run alnum alnum jsonBadParam (init zeroCallState) =
     (Inl (Err ''missing parameter Text''), init zeroCallState)"
  by (simp add: eval_defs jsonBadParam_def)

lemma storeUserInput_test_bad_timeout:
  "storeUserInput_Run alnum alnum jsonBadTimeout (init zeroCallState) =
     (Inl (NumError ''Atoi'' ''fishcake'' ''invalid syntax''), init zeroCallState)"
  by (simp add: eval_defs jsonBadTimeout_def)

lemma storeUserInput_test_custom_terminator:
  "storeUserInput_Run alnum alnum jsonOKCustomTerminator (init (zeroCallState\<lparr>st_i := ''12345678''\<rparr>)) =
     (Inr (Some ''00000000-0000-4000-0000-000000000001''),
      (init (zeroCallState\<lparr>st_i := ''12345678''\<rparr>))
        \<lparr>st_o := ''hello'', oSSML := False, rcv_count := 8, rcv_timeout := 7000000000,
         rcv_terminator := CHR ''0'', system := [SystemLastUserInput \<mapsto> ''12345678'']\<rparr>)"
  by (simp add: eval_defs jsonOKCustomTerminator_def)

end
